theory Spec2Isabelle
  imports Main "HOL-Library.AList"
begin

text \<open>
  A model of \<open>index.js\<close>, the Express adapter of an OAuth2 server engine. The file holds
  the module twice: lines 1--212, and after a separator line a second revision, lines
  214--415. The two differ in how a handler reaches the adapter instance and in where the
  revoke flag is kept; the constructor and \<open>handleResponse\<close> are the same. Names without
  a suffix are the first revision, names ending in \<open>_rev2\<close> the second.
\<close>

section \<open>JavaScript values and objects\<close>

text \<open>
  The adapter is dynamically typed: option bags, header sets, \<open>res.locals\<close>, tokens and
  response bodies are plain JavaScript values. A value is a primitive or an object, and an
  object is its list of own properties in insertion order. Numbers are integers here: the
  only numbers the module inspects are HTTP status codes.
\<close>

datatype jsval =
    JUndefined
  | JNull
  | JBool bool
  | JNum int
  | JStr string
  | JObj "(string \<times> jsval) list"

type_synonym jsobj = "(string \<times> jsval) list"

text \<open>Truthiness, as used by \<open>!x\<close>, \<open>x ? a : b\<close>, \<open>x || y\<close> and \<open>if (x)\<close>.\<close>

fun truthy :: "jsval \<Rightarrow> bool" where
  "truthy JUndefined = False"
| "truthy JNull = False"
| "truthy (JBool b) = b"
| "truthy (JNum n) = (n \<noteq> 0)"
| "truthy (JStr s) = (s \<noteq> [])"
| "truthy (JObj ps) = True"

text \<open>\<open>obj.k\<close>: reading a property that the object does not have gives \<open>undefined\<close>.\<close>

definition prop_get :: "jsobj \<Rightarrow> string \<Rightarrow> jsval" where
  "prop_get obj k = (case map_of obj k of None \<Rightarrow> JUndefined | Some v \<Rightarrow> v)"

text \<open>\<open>obj.k = v\<close> and \<open>delete obj.k\<close>.\<close>

definition prop_set :: "string \<Rightarrow> jsval \<Rightarrow> jsobj \<Rightarrow> jsobj" where
  "prop_set k v obj = AList.update k v obj"

definition prop_delete :: "string \<Rightarrow> jsobj \<Rightarrow> jsobj" where
  "prop_delete k obj = AList.delete k obj"

text \<open>\<open>v.k\<close> on an arbitrary value; the keys read here are on no primitive's prototype.\<close>

fun member_of :: "jsval \<Rightarrow> string \<Rightarrow> jsval" where
  "member_of (JObj ps) k = prop_get ps k"
| "member_of v k = JUndefined"

section \<open>Errors\<close>

text \<open>
  Modelled from the spec: the error classes live in the engine's package
  (\<open>oauth2-server/lib/errors/...\<close>), not in this repository. The spec gives them as a
  tagged variant over InvalidArgumentError, UnauthorizedRequestError, InvalidTokenError
  and the generic OAuth error, each value carrying \<open>code\<close>, \<open>name\<close> and \<open>message\<close>;
  \<open>OtherError\<close> stands for any value thrown that is none of these. An \<open>instanceof\<close> test
  of the source is a test on \<open>kind\<close>. The three fields are read by the source without any
  check, so they are arbitrary values.
\<close>

datatype error_kind =
    InvalidArgumentError
  | UnauthorizedRequestError
  | InvalidTokenError
  | OAuthError
  | OtherError

record error =
  kind :: error_kind
  code :: jsval
  name :: jsval
  message :: jsval

text \<open>
  \<open>new InvalidArgumentError(msg)\<close>. The engine's class fixes the status code 500 and the
  name \<open>invalid_argument\<close>.
\<close>

definition new_InvalidArgumentError :: "string \<Rightarrow> error" where
  "new_InvalidArgumentError msg =
     \<lparr>kind = InvalidArgumentError, code = JNum 500,
      name = JStr ''invalid_argument'', message = JStr msg\<rparr>"

section \<open>The adapter object and its constructor\<close>

text \<open>
  An engine instance is identified by the options it was constructed with. The engine's
  constructor is outside the repository and may itself throw, so the constructor of the
  adapter takes it as a parameter.
\<close>

datatype engine = NodeOAuthServer jsobj

text \<open>
  The adapter instance. \<open>invalidTokenOnRevoke\<close> is a property that the constructor never
  creates (it reads as \<open>undefined\<close>); only the second revision of \<open>revoke\<close> assigns it.
\<close>

record adapter =
  useErrorHandler :: bool
  server :: engine
  invalidTokenOnRevoke :: jsval

text \<open>
  The result of \<open>new ExpressOAuthServer(options)\<close>: the arguments of every call of the
  engine's constructor that was made, and either the error thrown or the instance.
\<close>

record construction =
  engine_calls :: "jsobj list"
  outcome :: "error + adapter"

text \<open>\<open>options || {}\<close>, for an argument that is an object or absent.\<close>

definition or_empty :: "jsobj option \<Rightarrow> jsobj" where
  "or_empty arg = (case arg of None \<Rightarrow> [] | Some obj \<Rightarrow> obj)"

text \<open>\<open>function ExpressOAuthServer(options)\<close>, lines 18--29 (and 230--241, identical).\<close>

definition ExpressOAuthServer ::
  "(jsobj \<Rightarrow> error + engine) \<Rightarrow> jsobj option \<Rightarrow> construction" where
  "ExpressOAuthServer newServer options_arg =
     (let options = or_empty options_arg in
      if \<not> truthy (prop_get options ''model'') then
        \<lparr>engine_calls = [],
         outcome = Inl (new_InvalidArgumentError ''Missing parameter: `model`'')\<rparr>
      else
        let flag = (if truthy (prop_get options ''useErrorHandler'') then True else False);
            options' = prop_delete ''useErrorHandler'' options
        in \<lparr>engine_calls = [options'],
            outcome = (case newServer options' of
                         Inl e \<Rightarrow> Inl e
                       | Inr srv \<Rightarrow>
                           Inr \<lparr>useErrorHandler = flag, server = srv,
                                invalidTokenOnRevoke = JUndefined\<rparr>)\<rparr>)"

section \<open>The HTTP response handle and the pipeline\<close>

text \<open>
  Everything a middleware does to the outside world goes through the Express response
  \<open>res\<close> and the callback \<open>next\<close>. The model keeps the request-scoped \<open>res.locals\<close> and
  the sequence of calls made that returned, in program order. A transport call can also
  throw; where that is taken into account is said at the response translation below.
\<close>

datatype event =
    SetHeaders jsobj            \<comment> \<open>\<open>res.set(headers)\<close>\<close>
  | Status jsval                \<comment> \<open>\<open>res.status(code)\<close>\<close>
  | Send jsval                  \<comment> \<open>\<open>res.send(body)\<close>; \<open>res.send()\<close> sends \<open>undefined\<close>\<close>
  | Redirect jsval              \<comment> \<open>\<open>res.redirect(location)\<close>\<close>
  | SetLocal string jsval       \<comment> \<open>\<open>res.locals.k = v\<close>\<close>
  | Next "error option"         \<comment> \<open>\<open>next()\<close> or \<open>next(e)\<close>\<close>

record http_res =
  locals :: jsobj
  trace :: "event list"

definition emit :: "event \<Rightarrow> http_res \<Rightarrow> http_res" where
  "emit ev res = res\<lparr>trace := trace res @ [ev]\<rparr>"

definition res_set :: "jsobj \<Rightarrow> http_res \<Rightarrow> http_res" where
  "res_set hs res = emit (SetHeaders hs) res"

definition res_status :: "jsval \<Rightarrow> http_res \<Rightarrow> http_res" where
  "res_status c res = emit (Status c) res"

definition res_send :: "jsval \<Rightarrow> http_res \<Rightarrow> http_res" where
  "res_send b res = emit (Send b) res"

definition res_redirect :: "jsval \<Rightarrow> http_res \<Rightarrow> http_res" where
  "res_redirect l res = emit (Redirect l) res"

definition locals_assign :: "string \<Rightarrow> jsval \<Rightarrow> http_res \<Rightarrow> http_res" where
  "locals_assign k v res = emit (SetLocal k v) (res\<lparr>locals := prop_set k v (locals res)\<rparr>)"

definition call_next :: "error option \<Rightarrow> http_res \<Rightarrow> http_res" where
  "call_next arg res = emit (Next arg) res"

text \<open>What one invocation added to the trace, and what can be read off a trace.\<close>

definition emitted :: "http_res \<Rightarrow> http_res \<Rightarrow> event list" where
  "emitted before after = drop (length (trace before)) (trace after)"

fun next_calls :: "event list \<Rightarrow> error option list" where
  "next_calls [] = []"
| "next_calls (Next a # evs) = a # next_calls evs"
| "next_calls (ev # evs) = next_calls evs"

fun statuses :: "event list \<Rightarrow> jsval list" where
  "statuses [] = []"
| "statuses (Status c # evs) = c # statuses evs"
| "statuses (ev # evs) = statuses evs"

fun bodies :: "event list \<Rightarrow> jsval list" where
  "bodies [] = []"
| "bodies (Send b # evs) = b # bodies evs"
| "bodies (ev # evs) = bodies evs"

fun local_writes :: "event list \<Rightarrow> (string \<times> jsval) list" where
  "local_writes [] = []"
| "local_writes (SetLocal k v # evs) = (k, v) # local_writes evs"
| "local_writes (ev # evs) = local_writes evs"

section \<open>The protocol response and the engine call\<close>

text \<open>The engine's \<open>Response\<close> object: the fields this module reads.\<close>

record oauth_response =
  status :: jsval
  headers :: jsobj
  body :: jsval

text \<open>How a promise settles.\<close>

datatype settled = Fulfilled jsval | Rejected error

text \<open>
  One call of an engine operation (\<open>server.authenticate\<close>, \<open>server.authorize\<close>,
  \<open>server.token\<close>, \<open>server.revoke\<close>) on the request at hand: how the promise it returns
  settles, and the \<open>response\<close> object as the engine has left it by then. The engine is a
  black box, so a middleware takes this as its input.
\<close>

record engine_run =
  settles :: settled
  populated :: oauth_response

section \<open>Response translation\<close>

text \<open>
  \<open>handleResponse(req, res, response)\<close>, lines 160--172 (and 364--376, identical);
  \<open>req\<close> is unused. The function mutates \<open>response.headers\<close>, so the model returns the
  response object too.
\<close>

definition handleResponse :: "http_res \<Rightarrow> oauth_response \<Rightarrow> http_res \<times> oauth_response" where
  "handleResponse res response =
     (if status response = JNum 302 then
        let location = prop_get (headers response) ''location'';
            response' = response\<lparr>headers := prop_delete ''location'' (headers response)\<rparr>;
            res1 = res_set (headers response') res;
            res2 = res_redirect location res1
        in (res2, response')
      else
        let res1 = res_set (headers response) res;
            res2 = res_send (body response) (res_status (status response) res1)
        in (res2, response))"

text \<open>
  A call on \<open>res\<close> inside \<open>handleResponse\<close> may throw (\<open>res.set\<close>, \<open>res.status\<close>,
  \<open>res.send\<close>, \<open>res.redirect\<close> are the transport's code). A fault says which of the
  calls that \<open>handleResponse\<close> makes throws, counted from 0 in program order, and the
  value thrown; no fault, or a number beyond the calls made, and the function returns.
  How many calls it makes depends on the protocol response only, not on the handle.
\<close>

type_synonym fault = "(nat \<times> error) option"

definition transport_calls :: "http_res \<Rightarrow> oauth_response \<Rightarrow> event list" where
  "transport_calls res response = emitted res (fst (handleResponse res response))"

definition throws :: "fault \<Rightarrow> oauth_response \<Rightarrow> error option" where
  "throws fault response =
     (case fault of
        None \<Rightarrow> None
      | Some (n, x) \<Rightarrow>
          if n < length (transport_calls \<lparr>locals = [], trace = []\<rparr> response)
          then Some x else None)"

text \<open>
  The chain step \<open>.then(function() { return handleResponse(req, res, response); })\<close>,
  lines 82--84, 114--116, 143--145 (and 290--292, 320--322, 347--349): the handler runs to
  its end and the step is fulfilled with \<open>undefined\<close>, or a call throws and the step is
  rejected with the value thrown. In that case the calls before it have been made; so has
  the deletion of \<open>location\<close>, which comes before every call.
\<close>

definition translate ::
  "fault \<Rightarrow> http_res \<Rightarrow> oauth_response \<Rightarrow> (http_res \<times> oauth_response) \<times> settled" where
  "translate fault res response =
     (case fault of
        None \<Rightarrow> (handleResponse res response, Fulfilled JUndefined)
      | Some (n, x) \<Rightarrow>
          if n < length (transport_calls res response)
          then ((res\<lparr>trace := trace res @ take n (transport_calls res response)\<rparr>,
                 snd (handleResponse res response)),
                Rejected x)
          else (handleResponse res response, Fulfilled JUndefined))"

section \<open>Error translation\<close>

text \<open>
  \<open>handleError\<close> reads \<open>this.useErrorHandler\<close>. What \<open>this\<close> is depends on the call:
  \<open>handleError(...)\<close> is a plain call, and the module has no strict-mode directive, so
  \<open>this\<close> is the global object, on which nothing defines the properties read here;
  \<open>handleError.call(x, ...)\<close> makes \<open>this\<close> the object \<open>x\<close>.
\<close>

datatype receiver = GlobalObject | Instance adapter

fun this_useErrorHandler :: "receiver \<Rightarrow> jsval" where
  "this_useErrorHandler GlobalObject = JUndefined"
| "this_useErrorHandler (Instance a) = JBool (useErrorHandler a)"

fun this_invalidTokenOnRevoke :: "receiver \<Rightarrow> jsval" where
  "this_invalidTokenOnRevoke GlobalObject = JUndefined"
| "this_invalidTokenOnRevoke (Instance a) = invalidTokenOnRevoke a"

text \<open>
  \<open>handleError(e, req, res, response, next)\<close>, lines 178--206, with its \<open>this\<close> as the
  first argument; \<open>response\<close> is \<open>null\<close> or an object. The value it returns is not used
  by any caller's observable behaviour and is left out. It is the terminal handler of
  every chain, and its own calls on \<open>res\<close> are taken to return.
\<close>

definition handleError ::
  "receiver \<Rightarrow> error \<Rightarrow> http_res \<Rightarrow> oauth_response option \<Rightarrow> http_res" where
  "handleError this e res response =
     (if this_useErrorHandler this = JBool True then
        call_next (Some e) res
      else
        let res1 = (case response of None \<Rightarrow> res | Some r \<Rightarrow> res_set (headers r) res) in
        if kind e = UnauthorizedRequestError then
          res_status (code e) res1
        else if truthy (prop_get (locals res1) ''invalidTokenOnRevoke'') then
          res_send JUndefined (res_status (JNum 200) res1)
        else
          res_send (JObj [(''error'', name e), (''error_description'', message e)])
            (res_status (code e) res1))"

text \<open>
  The second revision, lines 382--409: the same, except that the revoke flag is read from
  \<open>this\<close> instead of \<open>res.locals\<close>.
\<close>

definition handleError_rev2 ::
  "receiver \<Rightarrow> error \<Rightarrow> http_res \<Rightarrow> oauth_response option \<Rightarrow> http_res" where
  "handleError_rev2 this e res response =
     (if this_useErrorHandler this = JBool True then
        call_next (Some e) res
      else
        let res1 = (case response of None \<Rightarrow> res | Some r \<Rightarrow> res_set (headers r) res) in
        if kind e = UnauthorizedRequestError then
          res_status (code e) res1
        else if truthy (this_invalidTokenOnRevoke this) then
          res_send JUndefined (res_status (JNum 200) res1)
        else
          res_send (JObj [(''error'', name e), (''error_description'', message e)])
            (res_status (code e) res1))"

section \<open>Promise chains\<close>

text \<open>
  The middlewares are bluebird chains. A chain in flight is the state its handlers act on
  together with the settlement so far; a handler takes the state and returns the new
  state and how its own result settles. \<open>then\<close> and \<open>tap\<close> run their handler on
  fulfilment only, \<open>tap\<close> keeping the value it was given; \<open>catch\<close> runs on rejection only;
  \<open>finally\<close> runs always, is given no argument, and keeps the settlement it found.
\<close>

definition promise_then ::
  "(jsval \<Rightarrow> 's \<Rightarrow> 's \<times> settled) \<Rightarrow> 's \<times> settled \<Rightarrow> 's \<times> settled" where
  "promise_then f p =
     (case p of (s, Fulfilled v) \<Rightarrow> f v s | (s, Rejected e) \<Rightarrow> (s, Rejected e))"

definition promise_tap ::
  "(jsval \<Rightarrow> 's \<Rightarrow> 's \<times> settled) \<Rightarrow> 's \<times> settled \<Rightarrow> 's \<times> settled" where
  "promise_tap f p =
     (case p of
        (s, Fulfilled v) \<Rightarrow>
          (case f v s of
             (s', Fulfilled u) \<Rightarrow> (s', Fulfilled v)
           | (s', Rejected e) \<Rightarrow> (s', Rejected e))
      | (s, Rejected e) \<Rightarrow> (s, Rejected e))"

definition promise_catch ::
  "(error \<Rightarrow> 's \<Rightarrow> 's \<times> settled) \<Rightarrow> 's \<times> settled \<Rightarrow> 's \<times> settled" where
  "promise_catch f p =
     (case p of (s, Fulfilled v) \<Rightarrow> (s, Fulfilled v) | (s, Rejected e) \<Rightarrow> f e s)"

definition promise_finally ::
  "('s \<Rightarrow> 's \<times> settled) \<Rightarrow> 's \<times> settled \<Rightarrow> 's \<times> settled" where
  "promise_finally f p =
     (case p of
        (s, r) \<Rightarrow>
          (case f s of
             (s', Fulfilled u) \<Rightarrow> (s', r)
           | (s', Rejected e) \<Rightarrow> (s', Rejected e)))"

section \<open>The four middlewares, first revision (lines 39--155)\<close>

text \<open>
  The state a chain acts on: the adapter instance, the response handle of the request, and
  the protocol response (the variable \<open>response\<close> of the middleware). No handler reads
  \<open>response\<close> before the engine has settled, so the chain starts from the object as the
  engine leaves it. A middleware takes the adapter it was made from (\<open>this\<close> of the
  prototype method), the engine's run on this request, for \<open>authorize\<close>, \<open>token\<close> and
  \<open>revoke\<close> the fault of the response translation, and the response handle, and gives the
  state when the chain has settled. Express ignores the promise a middleware returns, so
  its value is dropped.
\<close>

record ctx =
  self :: adapter
  res :: http_res
  protocol_response :: oauth_response

definition authenticate :: "adapter \<Rightarrow> engine_run \<Rightarrow> http_res \<Rightarrow> ctx" where
  "authenticate this run res0 =
     (let p0 = (\<lparr>self = this, res = res0, protocol_response = populated run\<rparr>,
                Fulfilled JUndefined);
          p1 = promise_then (\<lambda>_ c. (c, settles run)) p0;
          p2 = promise_tap (\<lambda>token c.
                 (c\<lparr>res := call_next None
                     (locals_assign ''oauth'' (JObj [(''token'', token)]) (res c))\<rparr>,
                  Fulfilled JUndefined)) p1;
          p3 = promise_catch (\<lambda>e c.
                 (c\<lparr>res := handleError GlobalObject e (res c) None\<rparr>,
                  Fulfilled JUndefined)) p2
      in fst p3)"

definition authorize :: "adapter \<Rightarrow> engine_run \<Rightarrow> fault \<Rightarrow> http_res \<Rightarrow> ctx" where
  "authorize this run fault res0 =
     (let p0 = (\<lparr>self = this, res = res0, protocol_response = populated run\<rparr>,
                Fulfilled JUndefined);
          p1 = promise_then (\<lambda>_ c. (c, settles run)) p0;
          p2 = promise_tap (\<lambda>code c.
                 (c\<lparr>res := locals_assign ''oauth'' (JObj [(''code'', code)]) (res c)\<rparr>,
                  Fulfilled JUndefined)) p1;
          p3 = promise_then (\<lambda>_ c.
                 (case translate fault (res c) (protocol_response c) of
                    ((res', response'), s) \<Rightarrow>
                      (c\<lparr>res := res', protocol_response := response'\<rparr>, s))) p2;
          p4 = promise_catch (\<lambda>e c.
                 (c\<lparr>res := handleError GlobalObject e (res c)
                                  (Some (protocol_response c))\<rparr>,
                  Fulfilled JUndefined)) p3;
          p5 = promise_finally (\<lambda>c.
                 (c\<lparr>res := call_next None (res c)\<rparr>, Fulfilled JUndefined)) p4
      in fst p5)"

definition token :: "adapter \<Rightarrow> engine_run \<Rightarrow> fault \<Rightarrow> http_res \<Rightarrow> ctx" where
  "token this run fault res0 =
     (let p0 = (\<lparr>self = this, res = res0, protocol_response = populated run\<rparr>,
                Fulfilled JUndefined);
          p1 = promise_then (\<lambda>_ c. (c, settles run)) p0;
          p2 = promise_tap (\<lambda>token c.
                 (c\<lparr>res := locals_assign ''oauth'' (JObj [(''token'', token)]) (res c)\<rparr>,
                  Fulfilled JUndefined)) p1;
          p3 = promise_then (\<lambda>_ c.
                 (case translate fault (res c) (protocol_response c) of
                    ((res', response'), s) \<Rightarrow>
                      (c\<lparr>res := res', protocol_response := response'\<rparr>, s))) p2;
          p4 = promise_catch (\<lambda>e c.
                 (c\<lparr>res := handleError GlobalObject e (res c)
                                  (Some (protocol_response c))\<rparr>,
                  Fulfilled JUndefined)) p3;
          p5 = promise_finally (\<lambda>c.
                 (c\<lparr>res := call_next None (res c)\<rparr>, Fulfilled JUndefined)) p4
      in fst p5)"

definition revoke :: "adapter \<Rightarrow> engine_run \<Rightarrow> fault \<Rightarrow> http_res \<Rightarrow> ctx" where
  "revoke this run fault res0 =
     (let p0 = (\<lparr>self = this, res = res0, protocol_response = populated run\<rparr>,
                Fulfilled JUndefined);
          p1 = promise_then (\<lambda>_ c. (c, settles run)) p0;
          p2 = promise_then (\<lambda>_ c.
                 (case translate fault (res c) (protocol_response c) of
                    ((res', response'), s) \<Rightarrow>
                      (c\<lparr>res := res', protocol_response := response'\<rparr>, s))) p1;
          p3 = promise_catch (\<lambda>e c.
                 (let c' = (if kind e = InvalidTokenError
                            then c\<lparr>res := locals_assign ''invalidTokenOnRevoke''
                                             (JBool True) (res c)\<rparr>
                            else c)
                  in (c'\<lparr>res := handleError GlobalObject e (res c')
                                   (Some (protocol_response c'))\<rparr>,
                      Fulfilled JUndefined))) p2;
          p4 = promise_finally (\<lambda>c.
                 (c\<lparr>res := call_next None (res c)\<rparr>, Fulfilled JUndefined)) p3
      in fst p4)"

section \<open>The four middlewares, second revision (lines 251--359)\<close>

text \<open>
  Here each middleware is bound to the adapter (\<open>.bind(this)\<close>) and so is every handler of
  its chain (\<open>Promise.bind(this)\<close>): \<open>this\<close> in a handler is the adapter instance, and an
  assignment to \<open>this.invalidTokenOnRevoke\<close> changes that instance. \<open>authorize\<close>, \<open>token\<close>
  and \<open>revoke\<close> pass it on with \<open>handleError.call(this, ...)\<close>; \<open>authenticate\<close> still calls
  \<open>handleError(...)\<close> plainly.
\<close>

definition authenticate_rev2 :: "adapter \<Rightarrow> engine_run \<Rightarrow> http_res \<Rightarrow> ctx" where
  "authenticate_rev2 this run res0 =
     (let p0 = (\<lparr>self = this, res = res0, protocol_response = populated run\<rparr>,
                Fulfilled JUndefined);
          p1 = promise_then (\<lambda>_ c. (c, settles run)) p0;
          p2 = promise_tap (\<lambda>token c.
                 (c\<lparr>res := call_next None
                     (locals_assign ''oauth'' (JObj [(''token'', token)]) (res c))\<rparr>,
                  Fulfilled JUndefined)) p1;
          p3 = promise_catch (\<lambda>e c.
                 (c\<lparr>res := handleError_rev2 GlobalObject e (res c) None\<rparr>,
                  Fulfilled JUndefined)) p2
      in fst p3)"

definition authorize_rev2 :: "adapter \<Rightarrow> engine_run \<Rightarrow> fault \<Rightarrow> http_res \<Rightarrow> ctx" where
  "authorize_rev2 this run fault res0 =
     (let p0 = (\<lparr>self = this, res = res0, protocol_response = populated run\<rparr>,
                Fulfilled JUndefined);
          p1 = promise_then (\<lambda>_ c. (c, settles run)) p0;
          p2 = promise_tap (\<lambda>code c.
                 (c\<lparr>res := locals_assign ''oauth'' (JObj [(''code'', code)]) (res c)\<rparr>,
                  Fulfilled JUndefined)) p1;
          p3 = promise_then (\<lambda>_ c.
                 (case translate fault (res c) (protocol_response c) of
                    ((res', response'), s) \<Rightarrow>
                      (c\<lparr>res := res', protocol_response := response'\<rparr>, s))) p2;
          p4 = promise_catch (\<lambda>e c.
                 (c\<lparr>res := handleError_rev2 (Instance (self c)) e (res c)
                                  (Some (protocol_response c))\<rparr>,
                  Fulfilled JUndefined)) p3;
          p5 = promise_finally (\<lambda>c.
                 (c\<lparr>res := call_next None (res c)\<rparr>, Fulfilled JUndefined)) p4
      in fst p5)"

definition token_rev2 :: "adapter \<Rightarrow> engine_run \<Rightarrow> fault \<Rightarrow> http_res \<Rightarrow> ctx" where
  "token_rev2 this run fault res0 =
     (let p0 = (\<lparr>self = this, res = res0, protocol_response = populated run\<rparr>,
                Fulfilled JUndefined);
          p1 = promise_then (\<lambda>_ c. (c, settles run)) p0;
          p2 = promise_tap (\<lambda>token c.
                 (c\<lparr>res := locals_assign ''oauth'' (JObj [(''token'', token)]) (res c)\<rparr>,
                  Fulfilled JUndefined)) p1;
          p3 = promise_then (\<lambda>_ c.
                 (case translate fault (res c) (protocol_response c) of
                    ((res', response'), s) \<Rightarrow>
                      (c\<lparr>res := res', protocol_response := response'\<rparr>, s))) p2;
          p4 = promise_catch (\<lambda>e c.
                 (c\<lparr>res := handleError_rev2 (Instance (self c)) e (res c)
                                  (Some (protocol_response c))\<rparr>,
                  Fulfilled JUndefined)) p3;
          p5 = promise_finally (\<lambda>c.
                 (c\<lparr>res := call_next None (res c)\<rparr>, Fulfilled JUndefined)) p4
      in fst p5)"

definition revoke_rev2 :: "adapter \<Rightarrow> engine_run \<Rightarrow> fault \<Rightarrow> http_res \<Rightarrow> ctx" where
  "revoke_rev2 this run fault res0 =
     (let p0 = (\<lparr>self = this, res = res0, protocol_response = populated run\<rparr>,
                Fulfilled JUndefined);
          p1 = promise_then (\<lambda>_ c. (c, settles run)) p0;
          p2 = promise_then (\<lambda>_ c.
                 (case translate fault (res c) (protocol_response c) of
                    ((res', response'), s) \<Rightarrow>
                      (c\<lparr>res := res', protocol_response := response'\<rparr>, s))) p1;
          p3 = promise_catch (\<lambda>e c.
                 (let c' = (if kind e = InvalidTokenError
                            then c\<lparr>self := (self c)\<lparr>invalidTokenOnRevoke := JBool True\<rparr>\<rparr>
                            else c)
                  in (c'\<lparr>res := handleError_rev2 (Instance (self c')) e (res c')
                                   (Some (protocol_response c'))\<rparr>,
                      Fulfilled JUndefined))) p2;
          p4 = promise_finally (\<lambda>c.
                 (c\<lparr>res := call_next None (res c)\<rparr>, Fulfilled JUndefined)) p3
      in fst p4)"

section \<open>Basic facts\<close>

lemmas transport_defs =
  emit_def res_set_def res_status_def res_send_def res_redirect_def locals_assign_def
  call_next_def

lemmas promise_defs = promise_then_def promise_tap_def promise_catch_def promise_finally_def

lemma emitted_append: "trace r' = trace r @ evs \<Longrightarrow> emitted r r' = evs"
  by (simp add: emitted_def)

lemma prop_get_set_same: "prop_get (prop_set k v obj) k = v"
  by (simp add: prop_get_def prop_set_def update_conv')

lemma prop_get_absent:
  assumes "k \<notin> fst ` set obj"
  shows "prop_get obj k = JUndefined"
proof -
  from assms have "map_of obj k = None"
    by (simp add: map_of_eq_None_iff)
  then show ?thesis
    by (simp add: prop_get_def)
qed

lemma map_of_prop_delete: "map_of (prop_delete k obj) = (map_of obj)(k := None)"
  by (simp add: prop_delete_def delete_conv')

lemma prop_delete_absent: "k \<notin> fst ` set (prop_delete k obj)"
  by (simp add: prop_delete_def delete_notin_dom)

lemma next_calls_append: "next_calls (xs @ ys) = next_calls xs @ next_calls ys"
  by (induction xs rule: next_calls.induct) simp_all

subsection \<open>The translators\<close>

lemma handleResponse_locals: "locals (fst (handleResponse r resp)) = locals r"
  by (simp add: handleResponse_def transport_defs Let_def)

lemma handleResponse_trace:
  "trace (fst (handleResponse r resp)) = trace r @
     (if status resp = JNum 302
      then [SetHeaders (prop_delete ''location'' (headers resp)),
            Redirect (prop_get (headers resp) ''location'')]
      else [SetHeaders (headers resp), Status (status resp), Send (body resp)])"
  by (simp add: handleResponse_def transport_defs Let_def)

lemma handleError_locals: "locals (handleError this e r resp) = locals r"
  by (simp add: handleError_def transport_defs Let_def split: option.splits)

lemma handleError_trace:
  "trace (handleError this e r resp) = trace r @
     (if this_useErrorHandler this = JBool True then [Next (Some e)]
      else (case resp of None \<Rightarrow> [] | Some p \<Rightarrow> [SetHeaders (headers p)]) @
           (if kind e = UnauthorizedRequestError then [Status (code e)]
            else if truthy (prop_get (locals r) ''invalidTokenOnRevoke'')
            then [Status (JNum 200), Send JUndefined]
            else [Status (code e),
                  Send (JObj [(''error'', name e), (''error_description'', message e)])]))"
  by (simp add: handleError_def transport_defs Let_def split: option.splits)

text \<open>On the global object the first branch is dead.\<close>

lemma handleError_global_trace:
  "trace (handleError GlobalObject e r resp) = trace r @
     (case resp of None \<Rightarrow> [] | Some p \<Rightarrow> [SetHeaders (headers p)]) @
     (if kind e = UnauthorizedRequestError then [Status (code e)]
      else if truthy (prop_get (locals r) ''invalidTokenOnRevoke'')
      then [Status (JNum 200), Send JUndefined]
      else [Status (code e),
            Send (JObj [(''error'', name e), (''error_description'', message e)])])"
  by (simp add: handleError_trace)

lemma next_calls_handleError_global:
  "next_calls (emitted r (handleError GlobalObject e r resp)) = []"
  by (simp add: emitted_def handleError_global_trace split: option.splits)

lemma handleError_rev2_trace:
  "trace (handleError_rev2 this e r resp) = trace r @
     (if this_useErrorHandler this = JBool True then [Next (Some e)]
      else (case resp of None \<Rightarrow> [] | Some p \<Rightarrow> [SetHeaders (headers p)]) @
           (if kind e = UnauthorizedRequestError then [Status (code e)]
            else if truthy (this_invalidTokenOnRevoke this)
            then [Status (JNum 200), Send JUndefined]
            else [Status (code e),
                  Send (JObj [(''error'', name e), (''error_description'', message e)])]))"
  by (simp add: handleError_rev2_def transport_defs Let_def split: option.splits)

subsection \<open>The translation step\<close>

lemma transport_calls_eq:
  "transport_calls r resp =
     (if status resp = JNum 302
      then [SetHeaders (prop_delete ''location'' (headers resp)),
            Redirect (prop_get (headers resp) ''location'')]
      else [SetHeaders (headers resp), Status (status resp), Send (body resp)])"
  by (simp add: transport_calls_def emitted_def handleResponse_trace)

lemma length_transport_calls:
  "length (transport_calls r resp) = length (transport_calls r' resp)"
  by (simp add: transport_calls_eq)

lemma throws_None: "throws None resp = None"
  by (simp add: throws_def)

lemma throws_Some:
  "throws (Some (n, x)) resp =
     (if n < (if status resp = JNum 302 then 2 else 3) then Some x else None)"
  by (simp add: throws_def transport_calls_eq)

lemma translate_returns:
  assumes "throws fault resp = None"
  shows "translate fault r resp = (handleResponse r resp, Fulfilled JUndefined)"
proof (cases fault)
  case None
  then show ?thesis
    by (simp add: translate_def)
next
  case (Some nx)
  obtain n x where nx: "nx = (n, x)"
    by (cases nx)
  from assms Some nx
  have "\<not> n < length (transport_calls \<lparr>locals = [], trace = []\<rparr> resp)"
    by (simp add: throws_def split: if_splits)
  then have "\<not> n < length (transport_calls r resp)"
    by (simp add: transport_calls_eq)
  with Some nx show ?thesis
    by (simp add: translate_def)
qed

lemma translate_raises:
  assumes "throws fault resp = Some x"
  shows "translate fault r resp =
           ((r\<lparr>trace := trace r @ take (fst (the fault)) (transport_calls r resp)\<rparr>,
             snd (handleResponse r resp)),
            Rejected x)"
proof (cases fault)
  case None
  with assms show ?thesis
    by (simp add: throws_def)
next
  case (Some nx)
  obtain n y where nx: "nx = (n, y)"
    by (cases nx)
  from assms Some nx
  have "n < length (transport_calls \<lparr>locals = [], trace = []\<rparr> resp) \<and> y = x"
    by (simp add: throws_def split: if_splits)
  then have "n < length (transport_calls r resp)" and "y = x"
    by (simp_all add: transport_calls_eq)
  with Some nx show ?thesis
    by (simp add: translate_def)
qed

lemma next_calls_take:
  "next_calls evs = [] \<Longrightarrow> next_calls (take n evs) = []"
  by (induction evs arbitrary: n rule: next_calls.induct) (auto simp add: take_Cons')

lemma next_calls_take_transport_calls:
  "next_calls (take n (transport_calls r resp)) = []"
  by (rule next_calls_take) (simp add: transport_calls_eq)

subsection \<open>The chains of the first revision, by the way the engine settles\<close>

lemma authenticate_fulfilled:
  "settles run = Fulfilled t \<Longrightarrow>
   authenticate this run r =
     \<lparr>self = this,
      res = call_next None (locals_assign ''oauth'' (JObj [(''token'', t)]) r),
      protocol_response = populated run\<rparr>"
  by (simp add: authenticate_def promise_defs Let_def)

lemma authenticate_rejected:
  "settles run = Rejected e \<Longrightarrow>
   authenticate this run r =
     \<lparr>self = this, res = handleError GlobalObject e r None,
      protocol_response = populated run\<rparr>"
  by (simp add: authenticate_def promise_defs Let_def)

lemma authorize_fulfilled:
  "settles run = Fulfilled v \<Longrightarrow> throws fault (populated run) = None \<Longrightarrow>
   authorize this run fault r =
     \<lparr>self = this,
      res = call_next None (fst (handleResponse (locals_assign ''oauth'' (JObj [(''code'', v)]) r) (populated run))),
      protocol_response = snd (handleResponse (locals_assign ''oauth'' (JObj [(''code'', v)]) r) (populated run))\<rparr>"
  by (simp add: authorize_def promise_defs Let_def translate_returns
      case_prod_beta)

lemma authorize_rejected:
  "settles run = Rejected e \<Longrightarrow>
   authorize this run fault r =
     \<lparr>self = this,
      res = call_next None (handleError GlobalObject e r (Some (populated run))),
      protocol_response = populated run\<rparr>"
  by (simp add: authorize_def promise_defs Let_def)

lemma token_fulfilled:
  "settles run = Fulfilled v \<Longrightarrow> throws fault (populated run) = None \<Longrightarrow>
   token this run fault r =
     \<lparr>self = this,
      res = call_next None (fst (handleResponse (locals_assign ''oauth'' (JObj [(''token'', v)]) r) (populated run))),
      protocol_response = snd (handleResponse (locals_assign ''oauth'' (JObj [(''token'', v)]) r) (populated run))\<rparr>"
  by (simp add: token_def promise_defs Let_def translate_returns
      case_prod_beta)

lemma token_rejected:
  "settles run = Rejected e \<Longrightarrow>
   token this run fault r =
     \<lparr>self = this,
      res = call_next None (handleError GlobalObject e r (Some (populated run))),
      protocol_response = populated run\<rparr>"
  by (simp add: token_def promise_defs Let_def)

lemma revoke_fulfilled:
  "settles run = Fulfilled v \<Longrightarrow> throws fault (populated run) = None \<Longrightarrow>
   revoke this run fault r =
     \<lparr>self = this,
      res = call_next None (fst (handleResponse r (populated run))),
      protocol_response = snd (handleResponse r (populated run))\<rparr>"
  by (simp add: revoke_def promise_defs Let_def translate_returns
      case_prod_beta)

lemma revoke_rejected:
  "settles run = Rejected e \<Longrightarrow>
   revoke this run fault r =
     \<lparr>self = this,
      res = call_next None
              (handleError GlobalObject e
                 (if kind e = InvalidTokenError
                  then locals_assign ''invalidTokenOnRevoke'' (JBool True) r else r)
                 (Some (populated run))),
      protocol_response = populated run\<rparr>"
  by (simp add: revoke_def promise_defs Let_def)

text \<open>
  When the engine fulfils and the translation throws \<open>x\<close>, the catch handler takes \<open>x\<close>
  and the finalizer still runs: one call of \<open>next\<close>, without an argument.
\<close>

lemma rev1_translation_raises:
  assumes "settles run = Fulfilled v" and "throws fault (populated run) = Some x"
  shows "next_calls (emitted r (res (authorize this run fault r))) = [None] \<and>
         next_calls (emitted r (res (token this run fault r))) = [None] \<and>
         next_calls (emitted r (res (revoke this run fault r))) = [None] \<and>
         self (authorize this run fault r) = this \<and>
         self (token this run fault r) = this \<and>
         self (revoke this run fault r) = this"
  using assms
  by (simp add: authorize_def token_def revoke_def promise_defs Let_def translate_raises
      emitted_def handleError_global_trace transport_defs next_calls_append
      next_calls_take_transport_calls split: option.splits)

subsection \<open>The chains of the second revision\<close>

lemma handleError_rev2_locals: "locals (handleError_rev2 this e r resp) = locals r"
  by (simp add: handleError_rev2_def transport_defs Let_def split: option.splits)

lemma authenticate_rev2_fulfilled:
  "settles run = Fulfilled t \<Longrightarrow>
   authenticate_rev2 this run r =
     \<lparr>self = this,
      res = call_next None (locals_assign ''oauth'' (JObj [(''token'', t)]) r),
      protocol_response = populated run\<rparr>"
  by (simp add: authenticate_rev2_def promise_defs Let_def)

lemma authenticate_rev2_rejected:
  "settles run = Rejected e \<Longrightarrow>
   authenticate_rev2 this run r =
     \<lparr>self = this, res = handleError_rev2 GlobalObject e r None,
      protocol_response = populated run\<rparr>"
  by (simp add: authenticate_rev2_def promise_defs Let_def)

lemma authorize_rev2_fulfilled:
  "settles run = Fulfilled v \<Longrightarrow> throws fault (populated run) = None \<Longrightarrow>
   authorize_rev2 this run fault r =
     \<lparr>self = this,
      res = call_next None (fst (handleResponse (locals_assign ''oauth'' (JObj [(''code'', v)]) r) (populated run))),
      protocol_response = snd (handleResponse (locals_assign ''oauth'' (JObj [(''code'', v)]) r) (populated run))\<rparr>"
  by (simp add: authorize_rev2_def promise_defs Let_def translate_returns
      case_prod_beta)

lemma authorize_rev2_rejected:
  "settles run = Rejected e \<Longrightarrow>
   authorize_rev2 this run fault r =
     \<lparr>self = this,
      res = call_next None (handleError_rev2 (Instance this) e r (Some (populated run))),
      protocol_response = populated run\<rparr>"
  by (simp add: authorize_rev2_def promise_defs Let_def)

lemma token_rev2_fulfilled:
  "settles run = Fulfilled v \<Longrightarrow> throws fault (populated run) = None \<Longrightarrow>
   token_rev2 this run fault r =
     \<lparr>self = this,
      res = call_next None (fst (handleResponse (locals_assign ''oauth'' (JObj [(''token'', v)]) r) (populated run))),
      protocol_response = snd (handleResponse (locals_assign ''oauth'' (JObj [(''token'', v)]) r) (populated run))\<rparr>"
  by (simp add: token_rev2_def promise_defs Let_def translate_returns
      case_prod_beta)

lemma token_rev2_rejected:
  "settles run = Rejected e \<Longrightarrow>
   token_rev2 this run fault r =
     \<lparr>self = this,
      res = call_next None (handleError_rev2 (Instance this) e r (Some (populated run))),
      protocol_response = populated run\<rparr>"
  by (simp add: token_rev2_def promise_defs Let_def)

lemma revoke_rev2_fulfilled:
  "settles run = Fulfilled v \<Longrightarrow> throws fault (populated run) = None \<Longrightarrow>
   revoke_rev2 this run fault r =
     \<lparr>self = this,
      res = call_next None (fst (handleResponse r (populated run))),
      protocol_response = snd (handleResponse r (populated run))\<rparr>"
  by (simp add: revoke_rev2_def promise_defs Let_def translate_returns
      case_prod_beta)

lemma revoke_rev2_rejected:
  "settles run = Rejected e \<Longrightarrow>
   revoke_rev2 this run fault r =
     (if kind e = InvalidTokenError
      then \<lparr>self = this\<lparr>invalidTokenOnRevoke := JBool True\<rparr>,
            res = call_next None
                    (handleError_rev2
                       (Instance (this\<lparr>invalidTokenOnRevoke := JBool True\<rparr>)) e r
                       (Some (populated run))),
            protocol_response = populated run\<rparr>
      else \<lparr>self = this,
            res = call_next None
                    (handleError_rev2 (Instance this) e r (Some (populated run))),
            protocol_response = populated run\<rparr>)"
  by (simp add: revoke_rev2_def promise_defs Let_def)

text \<open>
  When the engine fulfils and the translation throws \<open>x\<close>: with \<open>useErrorHandler\<close> false
  there is one call of \<open>next\<close>, without an argument; with \<open>useErrorHandler\<close> true the
  catch handler hands \<open>x\<close> to \<open>next\<close> and the finalizer calls \<open>next\<close> once more.
\<close>

lemma rev2_translation_raises:
  assumes "settles run = Fulfilled v" and "throws fault (populated run) = Some x"
  shows "next_calls (emitted r (res (authorize_rev2 this run fault r))) =
           (if useErrorHandler this then [Some x, None] else [None]) \<and>
         next_calls (emitted r (res (token_rev2 this run fault r))) =
           (if useErrorHandler this then [Some x, None] else [None]) \<and>
         next_calls (emitted r (res (revoke_rev2 this run fault r))) =
           (if useErrorHandler this then [Some x, None] else [None])"
  using assms
  by (simp add: authorize_rev2_def token_rev2_def revoke_rev2_def promise_defs Let_def
      translate_raises emitted_def handleError_rev2_trace transport_defs next_calls_append
      next_calls_take_transport_calls split: option.splits)

subsection \<open>The adapter instance across requests\<close>

text \<open>
  In the first revision no middleware changes the adapter it was made from, so what a
  request gets does not depend on the requests served before it: the revoke flag lives in
  \<open>res.locals\<close> of the one request.
\<close>

lemma rev1_adapter_unchanged:
  "self (authenticate this run r) = this \<and> self (authorize this run fault r) = this \<and>
   self (token this run fault r) = this \<and> self (revoke this run fault r) = this"
proof (cases "settles run")
  case (Rejected e)
  then show ?thesis
    by (simp add: authenticate_rejected authorize_rejected token_rejected revoke_rejected)
next
  case (Fulfilled v)
  show ?thesis
  proof (cases "throws fault (populated run)")
    case None
    with Fulfilled show ?thesis
      by (simp add: authenticate_fulfilled authorize_fulfilled token_fulfilled
          revoke_fulfilled)
  next
    case (Some x)
    with Fulfilled show ?thesis
      by (simp add: authenticate_fulfilled rev1_translation_raises)
  qed
qed

lemma rev1_requests_independent:
  "authenticate (self (revoke this run1 fault1 r1)) run2 r2 = authenticate this run2 r2 \<and>
   authorize (self (revoke this run1 fault1 r1)) run2 fault2 r2 =
     authorize this run2 fault2 r2 \<and>
   token (self (revoke this run1 fault1 r1)) run2 fault2 r2 = token this run2 fault2 r2 \<and>
   revoke (self (revoke this run1 fault1 r1)) run2 fault2 r2 = revoke this run2 fault2 r2"
  by (simp add: rev1_adapter_unchanged)

text \<open>
  In the second revision \<open>authorize\<close>, \<open>token\<close> and \<open>revoke\<close> do reach the adapter's
  \<open>useErrorHandler\<close>: the error goes to \<open>next\<close>, nothing is written, and the finalizer
  then calls \<open>next\<close> once more.
\<close>

lemma rev2_delegates_to_error_handler:
  assumes "useErrorHandler this" and "settles run = Rejected e"
  shows "emitted r (res (authorize_rev2 this run fault r)) = [Next (Some e), Next None] \<and>
         emitted r (res (token_rev2 this run fault r)) = [Next (Some e), Next None] \<and>
         emitted r (res (revoke_rev2 this run fault r)) = [Next (Some e), Next None]"
  using assms
  by (simp add: authorize_rev2_rejected token_rev2_rejected revoke_rev2_rejected
      emitted_def handleError_rev2_trace call_next_def emit_def)

text \<open>
  In the second revision the flag that \<open>revoke\<close> sets on the adapter stays set: every
  later request whose engine call is rejected, with whatever error other than an
  UnauthorizedRequestError, is answered with status 200.
\<close>

lemma rev2_flag_sticks:
  assumes "\<not> useErrorHandler this"
    and "settles run1 = Rejected e1" and "kind e1 = InvalidTokenError"
    and "settles run2 = Rejected e2" and "kind e2 \<noteq> UnauthorizedRequestError"
  shows "statuses (emitted r2 (res (authorize_rev2
           (self (revoke_rev2 this run1 fault1 r1)) run2 fault2 r2))) = [JNum 200] \<and>
         statuses (emitted r2 (res (token_rev2
           (self (revoke_rev2 this run1 fault1 r1)) run2 fault2 r2))) = [JNum 200] \<and>
         statuses (emitted r2 (res (revoke_rev2
           (self (revoke_rev2 this run1 fault1 r1)) run2 fault2 r2))) = [JNum 200]"
  using assms
  by (simp add: authorize_rev2_rejected token_rev2_rejected revoke_rev2_rejected
      emitted_def handleError_rev2_trace call_next_def emit_def)

section \<open>Calls of \<open>next\<close>\<close>

text \<open>
  C1, as stated: every invocation of each of the four middlewares calls \<open>next\<close> exactly
  once, on every exit path. This fails for \<open>authenticate\<close> when the engine rejects: its
  chain has no finalizer, and the error translator writes the response without calling
  \<open>next\<close>. Here the adapter has \<open>useErrorHandler\<close> false and the engine rejects with an
  \<open>invalid_request\<close> error: the number of calls is not one.
\<close>

theorem authenticate_failure_does_not_advance:
  "length (next_calls (emitted \<lparr>locals = [], trace = []\<rparr>
     (res (authenticate
        \<lparr>useErrorHandler = False, server = NodeOAuthServer [],
         invalidTokenOnRevoke = JUndefined\<rparr>
        \<lparr>settles = Rejected
                     \<lparr>kind = OAuthError, code = JNum 400,
                      name = JStr ''invalid_request'', message = JStr ''bad''\<rparr>,
         populated = \<lparr>status = JUndefined, headers = [], body = JUndefined\<rparr>\<rparr>
        \<lparr>locals = [], trace = []\<rparr>)))) \<noteq> 1"
  by (simp add: authenticate_rejected next_calls_handleError_global)

text \<open>
  C1, amended. When \<open>useErrorHandler\<close> is false: \<open>authorize\<close>, \<open>token\<close> and \<open>revoke\<close> call
  \<open>next\<close> exactly once, without an argument, on every exit path (the engine fulfils and
  the response is translated, the engine fulfils and the translation throws, the engine
  rejects); \<open>authenticate\<close> calls \<open>next\<close> exactly once, without an argument, when the
  engine fulfils and not at all when the engine rejects. When \<open>useErrorHandler\<close> is true:
  each of the four calls \<open>next\<close> exactly once, without an argument, when the engine
  fulfils and (for \<open>authorize\<close>, \<open>token\<close>, \<open>revoke\<close>) the translation does not throw. This
  holds of both revisions.
\<close>

theorem next_called_once:
  "(\<forall>t. settles run = Fulfilled t \<longrightarrow>
      next_calls (emitted res0 (res (authenticate this run res0))) = [None] \<and>
      next_calls (emitted res0 (res (authenticate_rev2 this run res0))) = [None]) \<and>
   (\<forall>t. settles run = Fulfilled t \<and> throws fault (populated run) = None \<longrightarrow>
      next_calls (emitted res0 (res (authorize this run fault res0))) = [None] \<and>
      next_calls (emitted res0 (res (token this run fault res0))) = [None] \<and>
      next_calls (emitted res0 (res (revoke this run fault res0))) = [None] \<and>
      next_calls (emitted res0 (res (authorize_rev2 this run fault res0))) = [None] \<and>
      next_calls (emitted res0 (res (token_rev2 this run fault res0))) = [None] \<and>
      next_calls (emitted res0 (res (revoke_rev2 this run fault res0))) = [None]) \<and>
   (\<not> useErrorHandler this \<longrightarrow>
      next_calls (emitted res0 (res (authorize this run fault res0))) = [None] \<and>
      next_calls (emitted res0 (res (token this run fault res0))) = [None] \<and>
      next_calls (emitted res0 (res (revoke this run fault res0))) = [None] \<and>
      next_calls (emitted res0 (res (authorize_rev2 this run fault res0))) = [None] \<and>
      next_calls (emitted res0 (res (token_rev2 this run fault res0))) = [None] \<and>
      next_calls (emitted res0 (res (revoke_rev2 this run fault res0))) = [None]) \<and>
   (\<forall>e. settles run = Rejected e \<and> \<not> useErrorHandler this \<longrightarrow>
      next_calls (emitted res0 (res (authenticate this run res0))) = [] \<and>
      next_calls (emitted res0 (res (authenticate_rev2 this run res0))) = [])"
proof (cases "settles run")
  case (Rejected e)
  then show ?thesis
    by (simp add: authorize_rejected token_rejected revoke_rejected authenticate_rejected
        authorize_rev2_rejected token_rev2_rejected revoke_rev2_rejected
        authenticate_rev2_rejected emitted_def handleError_global_trace
        handleError_rev2_trace transport_defs next_calls_append split: option.splits)
next
  case (Fulfilled t)
  show ?thesis
  proof (cases "throws fault (populated run)")
    case None
    with Fulfilled show ?thesis
      by (simp add: authorize_fulfilled token_fulfilled revoke_fulfilled
          authenticate_fulfilled authorize_rev2_fulfilled token_rev2_fulfilled
          revoke_rev2_fulfilled authenticate_rev2_fulfilled emitted_def
          handleResponse_trace transport_defs)
  next
    case (Some x)
    have "next_calls (emitted res0 (res (authenticate this run res0))) = [None]"
      and "next_calls (emitted res0 (res (authenticate_rev2 this run res0))) = [None]"
      using Fulfilled
      by (simp_all add: authenticate_fulfilled authenticate_rev2_fulfilled emitted_def
          transport_defs)
    with Fulfilled Some show ?thesis
      by (simp add: rev1_translation_raises rev2_translation_raises)
  qed
qed

text \<open>
  C1, amended, with \<open>useErrorHandler\<close> false: on a run that is fulfilled and translated,
  on a fulfilled run whose \<open>res.status\<close> throws, and on a rejected run.
\<close>

theorem next_called_once_witness:
  "settles \<lparr>settles = Fulfilled (JObj [(''accessToken'', JStr ''abc'')]),
            populated = \<lparr>status = JUndefined, headers = [], body = JUndefined\<rparr>\<rparr>
     = Fulfilled (JObj [(''accessToken'', JStr ''abc'')]) \<and>
   throws None \<lparr>status = JUndefined, headers = [], body = JUndefined\<rparr> = None \<and>
   \<not> useErrorHandler \<lparr>useErrorHandler = False, server = NodeOAuthServer [],
                      invalidTokenOnRevoke = JUndefined\<rparr> \<and>
   next_calls (emitted \<lparr>locals = [], trace = []\<rparr> (res (authenticate
       \<lparr>useErrorHandler = False, server = NodeOAuthServer [],
        invalidTokenOnRevoke = JUndefined\<rparr>
       \<lparr>settles = Fulfilled (JObj [(''accessToken'', JStr ''abc'')]),
        populated = \<lparr>status = JUndefined, headers = [], body = JUndefined\<rparr>\<rparr>
       \<lparr>locals = [], trace = []\<rparr>))) = [None] \<and>
   next_calls (emitted \<lparr>locals = [], trace = []\<rparr> (res (token
       \<lparr>useErrorHandler = False, server = NodeOAuthServer [],
        invalidTokenOnRevoke = JUndefined\<rparr>
       \<lparr>settles = Fulfilled (JObj [(''accessToken'', JStr ''abc'')]),
        populated = \<lparr>status = JUndefined, headers = [], body = JUndefined\<rparr>\<rparr>
       None
       \<lparr>locals = [], trace = []\<rparr>))) = [None] \<and>
   next_calls (emitted \<lparr>locals = [], trace = []\<rparr> (res (token_rev2
       \<lparr>useErrorHandler = False, server = NodeOAuthServer [],
        invalidTokenOnRevoke = JUndefined\<rparr>
       \<lparr>settles = Fulfilled (JObj [(''accessToken'', JStr ''abc'')]),
        populated = \<lparr>status = JUndefined, headers = [], body = JUndefined\<rparr>\<rparr>
       (Some (1, \<lparr>kind = OtherError, code = JNum 500,
                  name = JStr ''Error'', message = JStr ''headers already sent''\<rparr>))
       \<lparr>locals = [], trace = []\<rparr>))) = [None] \<and>
   throws (Some (1, \<lparr>kind = OtherError, code = JNum 500,
                     name = JStr ''Error'', message = JStr ''headers already sent''\<rparr>))
       \<lparr>status = JUndefined, headers = [], body = JUndefined\<rparr>
     = Some \<lparr>kind = OtherError, code = JNum 500,
             name = JStr ''Error'', message = JStr ''headers already sent''\<rparr> \<and>
   settles \<lparr>settles = Rejected
                        \<lparr>kind = OAuthError, code = JNum 400,
                         name = JStr ''invalid_request'', message = JStr ''bad''\<rparr>,
            populated = \<lparr>status = JUndefined, headers = [], body = JUndefined\<rparr>\<rparr>
     = Rejected \<lparr>kind = OAuthError, code = JNum 400,
                 name = JStr ''invalid_request'', message = JStr ''bad''\<rparr> \<and>
   next_calls (emitted \<lparr>locals = [], trace = []\<rparr> (res (authenticate
       \<lparr>useErrorHandler = False, server = NodeOAuthServer [],
        invalidTokenOnRevoke = JUndefined\<rparr>
       \<lparr>settles = Rejected
                    \<lparr>kind = OAuthError, code = JNum 400,
                     name = JStr ''invalid_request'', message = JStr ''bad''\<rparr>,
        populated = \<lparr>status = JUndefined, headers = [], body = JUndefined\<rparr>\<rparr>
       \<lparr>locals = [], trace = []\<rparr>))) = [] \<and>
   next_calls (emitted \<lparr>locals = [], trace = []\<rparr> (res (revoke
       \<lparr>useErrorHandler = False, server = NodeOAuthServer [],
        invalidTokenOnRevoke = JUndefined\<rparr>
       \<lparr>settles = Rejected
                    \<lparr>kind = OAuthError, code = JNum 400,
                     name = JStr ''invalid_request'', message = JStr ''bad''\<rparr>,
        populated = \<lparr>status = JUndefined, headers = [], body = JUndefined\<rparr>\<rparr>
       None
       \<lparr>locals = [], trace = []\<rparr>))) = [None] \<and>
   next_calls (emitted \<lparr>locals = [], trace = []\<rparr> (res (token_rev2
       \<lparr>useErrorHandler = False, server = NodeOAuthServer [],
        invalidTokenOnRevoke = JUndefined\<rparr>
       \<lparr>settles = Rejected
                    \<lparr>kind = OAuthError, code = JNum 400,
                     name = JStr ''invalid_request'', message = JStr ''bad''\<rparr>,
        populated = \<lparr>status = JUndefined, headers = [], body = JUndefined\<rparr>\<rparr>
       None
       \<lparr>locals = [], trace = []\<rparr>))) = [None]"
  using next_called_once [where ?res0.0 = "\<lparr>locals = [], trace = []\<rparr>"
      and this = "\<lparr>useErrorHandler = False, server = NodeOAuthServer [],
                   invalidTokenOnRevoke = JUndefined\<rparr>"
      and fault = None
      and run = "\<lparr>settles = Fulfilled (JObj [(''accessToken'', JStr ''abc'')]),
                  populated = \<lparr>status = JUndefined, headers = [], body = JUndefined\<rparr>\<rparr>"]
    next_called_once [where ?res0.0 = "\<lparr>locals = [], trace = []\<rparr>"
      and this = "\<lparr>useErrorHandler = False, server = NodeOAuthServer [],
                   invalidTokenOnRevoke = JUndefined\<rparr>"
      and fault = "Some (1, \<lparr>kind = OtherError, code = JNum 500,
                             name = JStr ''Error'', message = JStr ''headers already sent''\<rparr>)"
      and run = "\<lparr>settles = Fulfilled (JObj [(''accessToken'', JStr ''abc'')]),
                  populated = \<lparr>status = JUndefined, headers = [], body = JUndefined\<rparr>\<rparr>"]
    next_called_once [where ?res0.0 = "\<lparr>locals = [], trace = []\<rparr>"
      and this = "\<lparr>useErrorHandler = False, server = NodeOAuthServer [],
                   invalidTokenOnRevoke = JUndefined\<rparr>"
      and fault = None
      and run = "\<lparr>settles = Rejected
                              \<lparr>kind = OAuthError, code = JNum 400,
                               name = JStr ''invalid_request'', message = JStr ''bad''\<rparr>,
                  populated = \<lparr>status = JUndefined, headers = [], body = JUndefined\<rparr>\<rparr>"]
  by (simp add: throws_None throws_Some)

section \<open>Revocation of an invalid token\<close>

text \<open>
  C2, as stated: when the engine rejects a revoke call with an InvalidTokenError, the
  response gets status 200 and an empty body, whatever \<open>useErrorHandler\<close> is. In the
  second revision \<open>handleError\<close> is called on the adapter, and its first branch takes
  every error when \<open>useErrorHandler\<close> is true: the error goes to \<open>next\<close>, and no status
  and no body is written.
\<close>

theorem rev2_revoke_invalid_token_delegated:
  "emitted \<lparr>locals = [], trace = []\<rparr> (res (revoke_rev2
       \<lparr>useErrorHandler = True, server = NodeOAuthServer [],
        invalidTokenOnRevoke = JUndefined\<rparr>
       \<lparr>settles = Rejected
                    \<lparr>kind = InvalidTokenError, code = JNum 401,
                     name = JStr ''invalid_token'', message = JStr ''gone''\<rparr>,
        populated = \<lparr>status = JUndefined, headers = [], body = JUndefined\<rparr>\<rparr>
       None
       \<lparr>locals = [], trace = []\<rparr>))
     = [Next (Some \<lparr>kind = InvalidTokenError, code = JNum 401,
                    name = JStr ''invalid_token'', message = JStr ''gone''\<rparr>),
        Next None] \<and>
   statuses (emitted \<lparr>locals = [], trace = []\<rparr> (res (revoke_rev2
       \<lparr>useErrorHandler = True, server = NodeOAuthServer [],
        invalidTokenOnRevoke = JUndefined\<rparr>
       \<lparr>settles = Rejected
                    \<lparr>kind = InvalidTokenError, code = JNum 401,
                     name = JStr ''invalid_token'', message = JStr ''gone''\<rparr>,
        populated = \<lparr>status = JUndefined, headers = [], body = JUndefined\<rparr>\<rparr>
       None
       \<lparr>locals = [], trace = []\<rparr>))) \<noteq> [JNum 200]"
  by (simp add: revoke_rev2_rejected emitted_def handleError_rev2_trace call_next_def
      emit_def)

text \<open>
  C2, amended: when \<open>useErrorHandler\<close> is false and the engine rejects a revoke call with
  an InvalidTokenError, the response gets the headers of the protocol response, status
  200 and an empty body, whatever status the error carries; no other status and no error
  body is written, and \<open>next\<close> is called once. This holds of both revisions.
\<close>

theorem revoke_invalid_token_succeeds:
  assumes "settles run = Rejected e" and "kind e = InvalidTokenError"
    and "\<not> useErrorHandler this"
  shows "emitted res0 (res (revoke this run fault res0)) =
           [SetLocal ''invalidTokenOnRevoke'' (JBool True),
            SetHeaders (headers (populated run)),
            Status (JNum 200), Send JUndefined, Next None] \<and>
         statuses (emitted res0 (res (revoke this run fault res0))) = [JNum 200] \<and>
         bodies (emitted res0 (res (revoke this run fault res0))) = [JUndefined] \<and>
         emitted res0 (res (revoke_rev2 this run fault res0)) =
           [SetHeaders (headers (populated run)),
            Status (JNum 200), Send JUndefined, Next None] \<and>
         statuses (emitted res0 (res (revoke_rev2 this run fault res0))) = [JNum 200] \<and>
         bodies (emitted res0 (res (revoke_rev2 this run fault res0))) = [JUndefined]"
proof -
  let ?r1 = "locals_assign ''invalidTokenOnRevoke'' (JBool True) res0"
  have flag: "truthy (prop_get (locals ?r1) ''invalidTokenOnRevoke'')"
    by (simp add: transport_defs prop_get_set_same)
  have r1: "trace ?r1 = trace res0 @ [SetLocal ''invalidTokenOnRevoke'' (JBool True)]"
    by (simp add: transport_defs)
  have "trace (res (revoke this run fault res0)) = trace res0 @
           [SetLocal ''invalidTokenOnRevoke'' (JBool True),
            SetHeaders (headers (populated run)),
            Status (JNum 200), Send JUndefined, Next None]"
    using assms flag r1
    by (simp add: revoke_rejected handleError_global_trace call_next_def emit_def)
  then have rev1: "emitted res0 (res (revoke this run fault res0)) =
           [SetLocal ''invalidTokenOnRevoke'' (JBool True),
            SetHeaders (headers (populated run)),
            Status (JNum 200), Send JUndefined, Next None]"
    by (rule emitted_append)
  have "trace (res (revoke_rev2 this run fault res0)) = trace res0 @
           [SetHeaders (headers (populated run)),
            Status (JNum 200), Send JUndefined, Next None]"
    using assms
    by (simp add: revoke_rev2_rejected handleError_rev2_trace call_next_def emit_def)
  then have rev2: "emitted res0 (res (revoke_rev2 this run fault res0)) =
           [SetHeaders (headers (populated run)),
            Status (JNum 200), Send JUndefined, Next None]"
    by (rule emitted_append)
  from rev1 rev2 show ?thesis
    by simp
qed

text \<open>C2, amended, on an error of status 401.\<close>

theorem revoke_invalid_token_succeeds_witness:
  "settles \<lparr>settles = Rejected
                        \<lparr>kind = InvalidTokenError, code = JNum 401,
                         name = JStr ''invalid_token'', message = JStr ''gone''\<rparr>,
            populated = \<lparr>status = JUndefined, headers = [], body = JUndefined\<rparr>\<rparr>
     = Rejected \<lparr>kind = InvalidTokenError, code = JNum 401,
                 name = JStr ''invalid_token'', message = JStr ''gone''\<rparr> \<and>
   kind \<lparr>kind = InvalidTokenError, code = JNum 401,
         name = JStr ''invalid_token'', message = JStr ''gone''\<rparr> = InvalidTokenError \<and>
   \<not> useErrorHandler \<lparr>useErrorHandler = False, server = NodeOAuthServer [],
                      invalidTokenOnRevoke = JUndefined\<rparr> \<and>
   statuses (emitted \<lparr>locals = [], trace = []\<rparr> (res (revoke
       \<lparr>useErrorHandler = False, server = NodeOAuthServer [],
        invalidTokenOnRevoke = JUndefined\<rparr>
       \<lparr>settles = Rejected
                    \<lparr>kind = InvalidTokenError, code = JNum 401,
                     name = JStr ''invalid_token'', message = JStr ''gone''\<rparr>,
        populated = \<lparr>status = JUndefined, headers = [], body = JUndefined\<rparr>\<rparr>
       None
       \<lparr>locals = [], trace = []\<rparr>))) = [JNum 200] \<and>
   bodies (emitted \<lparr>locals = [], trace = []\<rparr> (res (revoke
       \<lparr>useErrorHandler = False, server = NodeOAuthServer [],
        invalidTokenOnRevoke = JUndefined\<rparr>
       \<lparr>settles = Rejected
                    \<lparr>kind = InvalidTokenError, code = JNum 401,
                     name = JStr ''invalid_token'', message = JStr ''gone''\<rparr>,
        populated = \<lparr>status = JUndefined, headers = [], body = JUndefined\<rparr>\<rparr>
       None
       \<lparr>locals = [], trace = []\<rparr>))) = [JUndefined] \<and>
   statuses (emitted \<lparr>locals = [], trace = []\<rparr> (res (revoke_rev2
       \<lparr>useErrorHandler = False, server = NodeOAuthServer [],
        invalidTokenOnRevoke = JUndefined\<rparr>
       \<lparr>settles = Rejected
                    \<lparr>kind = InvalidTokenError, code = JNum 401,
                     name = JStr ''invalid_token'', message = JStr ''gone''\<rparr>,
        populated = \<lparr>status = JUndefined, headers = [], body = JUndefined\<rparr>\<rparr>
       None
       \<lparr>locals = [], trace = []\<rparr>))) = [JNum 200]"
  using revoke_invalid_token_succeeds [where fault = None and
      run = "\<lparr>settles = Rejected
                          \<lparr>kind = InvalidTokenError, code = JNum 401,
                           name = JStr ''invalid_token'', message = JStr ''gone''\<rparr>,
              populated = \<lparr>status = JUndefined, headers = [], body = JUndefined\<rparr>\<rparr>"
      and e = "\<lparr>kind = InvalidTokenError, code = JNum 401,
                name = JStr ''invalid_token'', message = JStr ''gone''\<rparr>"
      and ?res0.0 = "\<lparr>locals = [], trace = []\<rparr>"
      and this = "\<lparr>useErrorHandler = False, server = NodeOAuthServer [],
                   invalidTokenOnRevoke = JUndefined\<rparr>"]
  by simp

section \<open>The \<open>useErrorHandler\<close> option\<close>

text \<open>
  C3: with \<open>useErrorHandler\<close> true, a protocol error is to go to \<open>next\<close> unmodified and
  nothing is to be written to the response. The first revision calls \<open>handleError\<close>
  plainly, so its test of \<open>this.useErrorHandler\<close> never sees the adapter: with the option
  true and the engine rejecting with an \<open>invalid_request\<close> error, \<open>authenticate\<close> writes
  status 400 and the error body and never calls \<open>next\<close>, and \<open>token\<close> writes the same and
  calls \<open>next\<close> without the error. The second revision has the plain call left in
  \<open>authenticate\<close>.
\<close>

theorem useErrorHandler_is_not_consulted:
  "emitted \<lparr>locals = [], trace = []\<rparr> (res (authenticate
       \<lparr>useErrorHandler = True, server = NodeOAuthServer [],
        invalidTokenOnRevoke = JUndefined\<rparr>
       \<lparr>settles = Rejected
                    \<lparr>kind = OAuthError, code = JNum 400,
                     name = JStr ''invalid_request'', message = JStr ''bad''\<rparr>,
        populated = \<lparr>status = JUndefined, headers = [], body = JUndefined\<rparr>\<rparr>
       \<lparr>locals = [], trace = []\<rparr>))
     = [Status (JNum 400),
        Send (JObj [(''error'', JStr ''invalid_request''),
                    (''error_description'', JStr ''bad'')])] \<and>
   emitted \<lparr>locals = [], trace = []\<rparr> (res (token
       \<lparr>useErrorHandler = True, server = NodeOAuthServer [],
        invalidTokenOnRevoke = JUndefined\<rparr>
       \<lparr>settles = Rejected
                    \<lparr>kind = OAuthError, code = JNum 400,
                     name = JStr ''invalid_request'', message = JStr ''bad''\<rparr>,
        populated = \<lparr>status = JUndefined, headers = [], body = JUndefined\<rparr>\<rparr>
       None
       \<lparr>locals = [], trace = []\<rparr>))
     = [SetHeaders [], Status (JNum 400),
        Send (JObj [(''error'', JStr ''invalid_request''),
                    (''error_description'', JStr ''bad'')]),
        Next None] \<and>
   emitted \<lparr>locals = [], trace = []\<rparr> (res (authenticate_rev2
       \<lparr>useErrorHandler = True, server = NodeOAuthServer [],
        invalidTokenOnRevoke = JUndefined\<rparr>
       \<lparr>settles = Rejected
                    \<lparr>kind = OAuthError, code = JNum 400,
                     name = JStr ''invalid_request'', message = JStr ''bad''\<rparr>,
        populated = \<lparr>status = JUndefined, headers = [], body = JUndefined\<rparr>\<rparr>
       \<lparr>locals = [], trace = []\<rparr>))
     = [Status (JNum 400),
        Send (JObj [(''error'', JStr ''invalid_request''),
                    (''error_description'', JStr ''bad'')])]"
  by (simp add: authenticate_rejected token_rejected authenticate_rev2_rejected emitted_def
      handleError_global_trace handleError_rev2_trace call_next_def emit_def prop_get_def)

section \<open>The scope of the revoke flag\<close>

text \<open>
  C4: the revoke flag is to be request-scoped, so that the answer to a request does not
  depend on whether an earlier request's revoke met an InvalidTokenError. The second
  revision keeps the flag on the adapter instance. Two runs of a token request that the
  engine rejects with \<open>invalid_request\<close>, each on a fresh response handle: after a revoke
  request that met an InvalidTokenError the answer is status 200 with an empty body; after
  a revoke request that succeeded it is status 400 with the error body.
\<close>

theorem rev2_revoke_flag_leaks:
  "emitted \<lparr>locals = [], trace = []\<rparr> (res (token_rev2
       (self (revoke_rev2
          \<lparr>useErrorHandler = False, server = NodeOAuthServer [],
           invalidTokenOnRevoke = JUndefined\<rparr>
          \<lparr>settles = Rejected
                       \<lparr>kind = InvalidTokenError, code = JNum 401,
                        name = JStr ''invalid_token'', message = JStr ''gone''\<rparr>,
           populated = \<lparr>status = JUndefined, headers = [], body = JUndefined\<rparr>\<rparr>
          None
          \<lparr>locals = [], trace = []\<rparr>))
       \<lparr>settles = Rejected
                    \<lparr>kind = OAuthError, code = JNum 400,
                     name = JStr ''invalid_request'', message = JStr ''bad''\<rparr>,
        populated = \<lparr>status = JUndefined, headers = [], body = JUndefined\<rparr>\<rparr>
       None
       \<lparr>locals = [], trace = []\<rparr>))
     = [SetHeaders [], Status (JNum 200), Send JUndefined, Next None] \<and>
   emitted \<lparr>locals = [], trace = []\<rparr> (res (token_rev2
       (self (revoke_rev2
          \<lparr>useErrorHandler = False, server = NodeOAuthServer [],
           invalidTokenOnRevoke = JUndefined\<rparr>
          \<lparr>settles = Fulfilled JUndefined,
           populated = \<lparr>status = JNum 200, headers = [], body = JObj []\<rparr>\<rparr>
          None
          \<lparr>locals = [], trace = []\<rparr>))
       \<lparr>settles = Rejected
                    \<lparr>kind = OAuthError, code = JNum 400,
                     name = JStr ''invalid_request'', message = JStr ''bad''\<rparr>,
        populated = \<lparr>status = JUndefined, headers = [], body = JUndefined\<rparr>\<rparr>
       None
       \<lparr>locals = [], trace = []\<rparr>))
     = [SetHeaders [], Status (JNum 400),
        Send (JObj [(''error'', JStr ''invalid_request''),
                    (''error_description'', JStr ''bad'')]),
        Next None]"
  by (simp add: revoke_rev2_rejected revoke_rev2_fulfilled token_rev2_rejected emitted_def
      handleError_rev2_trace call_next_def emit_def throws_def)

section \<open>Response translation\<close>

text \<open>
  C5: for status 302 the translator reads the \<open>location\<close> header, deletes it from the
  response's headers, applies the headers that remain and redirects to the location, so
  that \<open>location\<close> is not among the headers applied; for every other status it applies
  all headers, sets that status and sends the body as it is. No other status is treated
  specially, and \<open>res.locals\<close> is not touched.
\<close>

theorem handleResponse_translation:
  "(status response = JNum 302 \<longrightarrow>
      emitted res0 (fst (handleResponse res0 response)) =
        [SetHeaders (prop_delete ''location'' (headers response)),
         Redirect (prop_get (headers response) ''location'')] \<and>
      headers (snd (handleResponse res0 response)) =
        prop_delete ''location'' (headers response) \<and>
      ''location'' \<notin> fst ` set (prop_delete ''location'' (headers response)) \<and>
      map_of (prop_delete ''location'' (headers response)) =
        (map_of (headers response))(''location'' := None)) \<and>
   (status response \<noteq> JNum 302 \<longrightarrow>
      emitted res0 (fst (handleResponse res0 response)) =
        [SetHeaders (headers response), Status (status response), Send (body response)] \<and>
      snd (handleResponse res0 response) = response) \<and>
   locals (fst (handleResponse res0 response)) = locals res0"
proof -
  have "headers (snd (handleResponse res0 response)) =
          prop_delete ''location'' (headers response)"
    if "status response = JNum 302"
    using that by (simp add: handleResponse_def Let_def)
  moreover have "snd (handleResponse res0 response) = response"
    if "status response \<noteq> JNum 302"
    using that by (simp add: handleResponse_def Let_def)
  ultimately show ?thesis
    by (simp add: handleResponse_locals emitted_def handleResponse_trace
        prop_delete_absent map_of_prop_delete)
qed

text \<open>C5 on a redirect and on a token response.\<close>

theorem handleResponse_translation_witness:
  "status \<lparr>status = JNum 302,
           headers = [(''location'', JStr ''/cb?code=1''),
                      (''cache-control'', JStr ''no-store'')],
           body = JUndefined\<rparr> = JNum 302 \<and>
   emitted \<lparr>locals = [], trace = []\<rparr> (fst (handleResponse \<lparr>locals = [], trace = []\<rparr>
       \<lparr>status = JNum 302,
        headers = [(''location'', JStr ''/cb?code=1''),
                   (''cache-control'', JStr ''no-store'')],
        body = JUndefined\<rparr>))
     = [SetHeaders [(''cache-control'', JStr ''no-store'')],
        Redirect (JStr ''/cb?code=1'')] \<and>
   status \<lparr>status = JNum 200,
           headers = [(''cache-control'', JStr ''no-store'')],
           body = JObj [(''access_token'', JStr ''abc'')]\<rparr> \<noteq> JNum 302 \<and>
   emitted \<lparr>locals = [], trace = []\<rparr> (fst (handleResponse \<lparr>locals = [], trace = []\<rparr>
       \<lparr>status = JNum 200,
        headers = [(''cache-control'', JStr ''no-store'')],
        body = JObj [(''access_token'', JStr ''abc'')]\<rparr>))
     = [SetHeaders [(''cache-control'', JStr ''no-store'')], Status (JNum 200),
        Send (JObj [(''access_token'', JStr ''abc'')])]"
  using handleResponse_translation [where ?res0.0 = "\<lparr>locals = [], trace = []\<rparr>"
      and response = "\<lparr>status = JNum 302,
                       headers = [(''location'', JStr ''/cb?code=1''),
                                  (''cache-control'', JStr ''no-store'')],
                       body = JUndefined\<rparr>"]
    handleResponse_translation [where ?res0.0 = "\<lparr>locals = [], trace = []\<rparr>"
      and response = "\<lparr>status = JNum 200,
                       headers = [(''cache-control'', JStr ''no-store'')],
                       body = JObj [(''access_token'', JStr ''abc'')]\<rparr>"]
  by (simp add: prop_delete_def prop_get_def)

section \<open>Error translation\<close>

text \<open>
  C6: when \<open>this.useErrorHandler\<close> is not \<open>true\<close> and the error is an
  UnauthorizedRequestError, the error translator applies the headers of the protocol
  response if one was supplied, then sets the status to the error's code, and does nothing
  else: no body is sent and \<open>next\<close> is not called. Both revisions of \<open>handleError\<close> do
  the same.
\<close>

theorem handleError_unauthorized:
  assumes "this_useErrorHandler this \<noteq> JBool True"
    and "kind e = UnauthorizedRequestError"
  shows "emitted res0 (handleError this e res0 response) =
           (case response of None \<Rightarrow> [] | Some r \<Rightarrow> [SetHeaders (headers r)]) @
           [Status (code e)] \<and>
         statuses (emitted res0 (handleError this e res0 response)) = [code e] \<and>
         bodies (emitted res0 (handleError this e res0 response)) = [] \<and>
         next_calls (emitted res0 (handleError this e res0 response)) = [] \<and>
         emitted res0 (handleError_rev2 this e res0 response) =
           emitted res0 (handleError this e res0 response)"
  using assms
  by (simp add: emitted_def handleError_trace handleError_rev2_trace split: option.splits)

text \<open>C6 on an error of code 401 with a \<open>WWW-Authenticate\<close> header set by the engine.\<close>

theorem handleError_unauthorized_witness:
  "this_useErrorHandler (Instance \<lparr>useErrorHandler = False, server = NodeOAuthServer [],
                                   invalidTokenOnRevoke = JUndefined\<rparr>)
     \<noteq> JBool True \<and>
   kind \<lparr>kind = UnauthorizedRequestError, code = JNum 401,
         name = JStr ''unauthorized_request'', message = JStr ''no token''\<rparr>
     = UnauthorizedRequestError \<and>
   emitted \<lparr>locals = [], trace = []\<rparr> (handleError
       (Instance \<lparr>useErrorHandler = False, server = NodeOAuthServer [],
                  invalidTokenOnRevoke = JUndefined\<rparr>)
       \<lparr>kind = UnauthorizedRequestError, code = JNum 401,
        name = JStr ''unauthorized_request'', message = JStr ''no token''\<rparr>
       \<lparr>locals = [], trace = []\<rparr>
       (Some \<lparr>status = JNum 401,
              headers = [(''WWW-Authenticate'', JStr ''Bearer'')],
              body = JUndefined\<rparr>))
     = [SetHeaders [(''WWW-Authenticate'', JStr ''Bearer'')], Status (JNum 401)] \<and>
   bodies (emitted \<lparr>locals = [], trace = []\<rparr> (handleError
       (Instance \<lparr>useErrorHandler = False, server = NodeOAuthServer [],
                  invalidTokenOnRevoke = JUndefined\<rparr>)
       \<lparr>kind = UnauthorizedRequestError, code = JNum 401,
        name = JStr ''unauthorized_request'', message = JStr ''no token''\<rparr>
       \<lparr>locals = [], trace = []\<rparr>
       (Some \<lparr>status = JNum 401,
              headers = [(''WWW-Authenticate'', JStr ''Bearer'')],
              body = JUndefined\<rparr>))) = []"
  using handleError_unauthorized [where
      this = "Instance \<lparr>useErrorHandler = False, server = NodeOAuthServer [],
                        invalidTokenOnRevoke = JUndefined\<rparr>"
      and e = "\<lparr>kind = UnauthorizedRequestError, code = JNum 401,
                name = JStr ''unauthorized_request'', message = JStr ''no token''\<rparr>"
      and ?res0.0 = "\<lparr>locals = [], trace = []\<rparr>"
      and response = "Some \<lparr>status = JNum 401,
                            headers = [(''WWW-Authenticate'', JStr ''Bearer'')],
                            body = JUndefined\<rparr>"]
  by simp

text \<open>
  C7: when \<open>this.useErrorHandler\<close> is not \<open>true\<close>, the error is not an
  UnauthorizedRequestError and the revoke flag is not set, the error translator sets the
  status to the error's code and sends the body
  \<open>{ error: e.name, error_description: e.message }\<close>, after the headers of the protocol
  response if one was supplied. The flag is \<open>res.locals.invalidTokenOnRevoke\<close> in the
  first revision and \<open>this.invalidTokenOnRevoke\<close> in the second.
\<close>

theorem handleError_error_body:
  assumes "this_useErrorHandler this \<noteq> JBool True"
    and "kind e \<noteq> UnauthorizedRequestError"
  shows "(\<not> truthy (prop_get (locals res0) ''invalidTokenOnRevoke'') \<longrightarrow>
            emitted res0 (handleError this e res0 response) =
              (case response of None \<Rightarrow> [] | Some r \<Rightarrow> [SetHeaders (headers r)]) @
              [Status (code e),
               Send (JObj [(''error'', name e), (''error_description'', message e)])] \<and>
            statuses (emitted res0 (handleError this e res0 response)) = [code e] \<and>
            bodies (emitted res0 (handleError this e res0 response)) =
              [JObj [(''error'', name e), (''error_description'', message e)]]) \<and>
         (\<not> truthy (this_invalidTokenOnRevoke this) \<longrightarrow>
            emitted res0 (handleError_rev2 this e res0 response) =
              (case response of None \<Rightarrow> [] | Some r \<Rightarrow> [SetHeaders (headers r)]) @
              [Status (code e),
               Send (JObj [(''error'', name e), (''error_description'', message e)])] \<and>
            statuses (emitted res0 (handleError_rev2 this e res0 response)) = [code e] \<and>
            bodies (emitted res0 (handleError_rev2 this e res0 response)) =
              [JObj [(''error'', name e), (''error_description'', message e)]])"
  using assms
  by (simp add: emitted_def handleError_trace handleError_rev2_trace split: option.splits)

text \<open>C7 on the error with code 400, name \<open>invalid_request\<close> and message \<open>bad\<close>.\<close>

theorem handleError_error_body_witness:
  "this_useErrorHandler GlobalObject \<noteq> JBool True \<and>
   kind \<lparr>kind = OAuthError, code = JNum 400,
         name = JStr ''invalid_request'', message = JStr ''bad''\<rparr>
     \<noteq> UnauthorizedRequestError \<and>
   \<not> truthy (prop_get (locals \<lparr>locals = [], trace = []\<rparr>) ''invalidTokenOnRevoke'') \<and>
   \<not> truthy (this_invalidTokenOnRevoke GlobalObject) \<and>
   statuses (emitted \<lparr>locals = [], trace = []\<rparr> (handleError GlobalObject
       \<lparr>kind = OAuthError, code = JNum 400,
        name = JStr ''invalid_request'', message = JStr ''bad''\<rparr>
       \<lparr>locals = [], trace = []\<rparr> None)) = [JNum 400] \<and>
   bodies (emitted \<lparr>locals = [], trace = []\<rparr> (handleError GlobalObject
       \<lparr>kind = OAuthError, code = JNum 400,
        name = JStr ''invalid_request'', message = JStr ''bad''\<rparr>
       \<lparr>locals = [], trace = []\<rparr> None))
     = [JObj [(''error'', JStr ''invalid_request''),
              (''error_description'', JStr ''bad'')]] \<and>
   bodies (emitted \<lparr>locals = [], trace = []\<rparr> (handleError_rev2 GlobalObject
       \<lparr>kind = OAuthError, code = JNum 400,
        name = JStr ''invalid_request'', message = JStr ''bad''\<rparr>
       \<lparr>locals = [], trace = []\<rparr> None))
     = [JObj [(''error'', JStr ''invalid_request''),
              (''error_description'', JStr ''bad'')]]"
  using handleError_error_body [where this = GlobalObject
      and e = "\<lparr>kind = OAuthError, code = JNum 400,
                name = JStr ''invalid_request'', message = JStr ''bad''\<rparr>"
      and ?res0.0 = "\<lparr>locals = [], trace = []\<rparr>" and response = None]
  by (simp add: prop_get_def)

section \<open>Construction\<close>

text \<open>
  C8, as stated: construction fails for the configurations that lack a \<open>model\<close> entry and
  succeeds for every configuration that contains one. The guard is \<open>!options.model\<close>, a
  test of truthiness: the configuration \<open>{ model: null }\<close> contains a \<open>model\<close> entry, and
  construction fails with the same error, the engine's constructor not being called.
\<close>

theorem construction_rejects_falsy_model:
  "''model'' \<in> fst ` set [(''model'', JNull)] \<and>
   ExpressOAuthServer (Inr \<circ> NodeOAuthServer) (Some [(''model'', JNull)]) =
     \<lparr>engine_calls = [],
      outcome = Inl (new_InvalidArgumentError ''Missing parameter: `model`'')\<rparr>"
  by (simp add: ExpressOAuthServer_def or_empty_def prop_get_def)

text \<open>
  C8, amended: when \<open>model\<close> is absent or falsy (and so whenever the configuration lacks
  a \<open>model\<close> entry), construction throws an InvalidArgumentError and the engine's
  constructor is never called. When \<open>model\<close> is truthy, the adapter itself throws
  nothing: the engine's constructor is called exactly once, with the options less
  \<open>useErrorHandler\<close>, and construction gives the adapter holding the engine and the flag,
  or else the error that the engine's constructor threw.
\<close>

theorem construction_guard:
  "(\<not> truthy (prop_get (or_empty options) ''model'') \<longrightarrow>
      outcome (ExpressOAuthServer newServer options) =
        Inl (new_InvalidArgumentError ''Missing parameter: `model`'') \<and>
      kind (new_InvalidArgumentError ''Missing parameter: `model`'') = InvalidArgumentError \<and>
      engine_calls (ExpressOAuthServer newServer options) = []) \<and>
   (''model'' \<notin> fst ` set (or_empty options) \<longrightarrow>
      \<not> truthy (prop_get (or_empty options) ''model'')) \<and>
   (truthy (prop_get (or_empty options) ''model'') \<longrightarrow>
      engine_calls (ExpressOAuthServer newServer options) =
        [prop_delete ''useErrorHandler'' (or_empty options)] \<and>
      outcome (ExpressOAuthServer newServer options) =
        (case newServer (prop_delete ''useErrorHandler'' (or_empty options)) of
           Inl e \<Rightarrow> Inl e
         | Inr srv \<Rightarrow>
             Inr \<lparr>useErrorHandler = truthy (prop_get (or_empty options) ''useErrorHandler''),
                  server = srv, invalidTokenOnRevoke = JUndefined\<rparr>))"
  by (auto simp add: ExpressOAuthServer_def Let_def new_InvalidArgumentError_def
      prop_get_absent split: sum.splits)

text \<open>C8, amended, on a configuration without \<open>model\<close> and on one with a model object.\<close>

theorem construction_guard_witness:
  "\<not> truthy (prop_get (or_empty (Some [(''useErrorHandler'', JBool True)])) ''model'') \<and>
   ''model'' \<notin> fst ` set (or_empty (Some [(''useErrorHandler'', JBool True)])) \<and>
   engine_calls (ExpressOAuthServer (Inr \<circ> NodeOAuthServer)
       (Some [(''useErrorHandler'', JBool True)])) = [] \<and>
   truthy (prop_get
       (or_empty (Some [(''model'', JObj []), (''useErrorHandler'', JBool True)]))
       ''model'') \<and>
   outcome (ExpressOAuthServer (Inr \<circ> NodeOAuthServer)
       (Some [(''model'', JObj []), (''useErrorHandler'', JBool True)]))
     = Inr \<lparr>useErrorHandler = True, server = NodeOAuthServer [(''model'', JObj [])],
            invalidTokenOnRevoke = JUndefined\<rparr>"
  using construction_guard [where newServer = "Inr \<circ> NodeOAuthServer"
      and options = "Some [(''useErrorHandler'', JBool True)]"]
    construction_guard [where newServer = "Inr \<circ> NodeOAuthServer"
      and options = "Some [(''model'', JObj []), (''useErrorHandler'', JBool True)]"]
  by (simp add: or_empty_def prop_get_def prop_delete_def)

section \<open>The side channel\<close>

text \<open>
  C9: when the engine's token validation fulfils with a token \<open>t\<close>, \<open>authenticate\<close>
  assigns \<open>{ token: t }\<close> to \<open>res.locals.oauth\<close> and then calls \<open>next\<close>, once and
  without an argument, and does nothing else; afterwards \<open>res.locals.oauth.token\<close> is
  \<open>t\<close>. The second revision does the same.
\<close>

theorem authenticate_success_exposes_token:
  assumes "settles run = Fulfilled t"
  shows "emitted res0 (res (authenticate this run res0)) =
           [SetLocal ''oauth'' (JObj [(''token'', t)]), Next None] \<and>
         member_of (prop_get (locals (res (authenticate this run res0))) ''oauth'') ''token''
           = t \<and>
         next_calls (emitted res0 (res (authenticate this run res0))) = [None] \<and>
         authenticate_rev2 this run res0 = authenticate this run res0"
proof -
  have "member_of (JObj [(''token'', t)]) ''token'' = t"
    by (simp add: prop_get_def)
  with assms show ?thesis
    by (simp add: authenticate_fulfilled authenticate_rev2_fulfilled emitted_def
        transport_defs prop_get_set_same)
qed

text \<open>C9 on a token object.\<close>

theorem authenticate_success_exposes_token_witness:
  "settles \<lparr>settles = Fulfilled (JObj [(''accessToken'', JStr ''abc'')]),
            populated = \<lparr>status = JUndefined, headers = [], body = JUndefined\<rparr>\<rparr>
     = Fulfilled (JObj [(''accessToken'', JStr ''abc'')]) \<and>
   emitted \<lparr>locals = [], trace = []\<rparr> (res (authenticate
       \<lparr>useErrorHandler = False, server = NodeOAuthServer [],
        invalidTokenOnRevoke = JUndefined\<rparr>
       \<lparr>settles = Fulfilled (JObj [(''accessToken'', JStr ''abc'')]),
        populated = \<lparr>status = JUndefined, headers = [], body = JUndefined\<rparr>\<rparr>
       \<lparr>locals = [], trace = []\<rparr>))
     = [SetLocal ''oauth'' (JObj [(''token'', JObj [(''accessToken'', JStr ''abc'')])]),
        Next None]"
  using authenticate_success_exposes_token [where
      run = "\<lparr>settles = Fulfilled (JObj [(''accessToken'', JStr ''abc'')]),
              populated = \<lparr>status = JUndefined, headers = [], body = JUndefined\<rparr>\<rparr>"
      and t = "JObj [(''accessToken'', JStr ''abc'')]"
      and ?res0.0 = "\<lparr>locals = [], trace = []\<rparr>"
      and this = "\<lparr>useErrorHandler = False, server = NodeOAuthServer [],
                   invalidTokenOnRevoke = JUndefined\<rparr>"]
  by simp

text \<open>
  C10: when the engine rejects, \<open>authorize\<close> and \<open>token\<close> make no assignment to
  \<open>res.locals\<close>, which is afterwards what it was before the invocation. This holds of
  both revisions.
\<close>

theorem failure_leaves_locals_untouched:
  assumes "settles run = Rejected e"
  shows "locals (res (authorize this run fault res0)) = locals res0 \<and>
         local_writes (emitted res0 (res (authorize this run fault res0))) = [] \<and>
         locals (res (token this run fault res0)) = locals res0 \<and>
         local_writes (emitted res0 (res (token this run fault res0))) = [] \<and>
         locals (res (authorize_rev2 this run fault res0)) = locals res0 \<and>
         local_writes (emitted res0 (res (authorize_rev2 this run fault res0))) = [] \<and>
         locals (res (token_rev2 this run fault res0)) = locals res0 \<and>
         local_writes (emitted res0 (res (token_rev2 this run fault res0))) = []"
  using assms
  by (simp add: authorize_rejected token_rejected authorize_rev2_rejected
      token_rev2_rejected emitted_def handleError_locals handleError_rev2_locals
      handleError_global_trace handleError_rev2_trace call_next_def emit_def
      split: option.splits)

text \<open>C10 on a request whose locals already hold an entry.\<close>

theorem failure_leaves_locals_untouched_witness:
  "settles \<lparr>settles = Rejected
                        \<lparr>kind = OAuthError, code = JNum 400,
                         name = JStr ''invalid_request'', message = JStr ''bad''\<rparr>,
            populated = \<lparr>status = JUndefined, headers = [], body = JUndefined\<rparr>\<rparr>
     = Rejected \<lparr>kind = OAuthError, code = JNum 400,
                 name = JStr ''invalid_request'', message = JStr ''bad''\<rparr> \<and>
   locals (res (authorize
       \<lparr>useErrorHandler = False, server = NodeOAuthServer [],
        invalidTokenOnRevoke = JUndefined\<rparr>
       \<lparr>settles = Rejected
                    \<lparr>kind = OAuthError, code = JNum 400,
                     name = JStr ''invalid_request'', message = JStr ''bad''\<rparr>,
        populated = \<lparr>status = JUndefined, headers = [], body = JUndefined\<rparr>\<rparr>
       None
       \<lparr>locals = [(''user'', JStr ''u1'')], trace = []\<rparr>))
     = [(''user'', JStr ''u1'')] \<and>
   locals (res (token
       \<lparr>useErrorHandler = False, server = NodeOAuthServer [],
        invalidTokenOnRevoke = JUndefined\<rparr>
       \<lparr>settles = Rejected
                    \<lparr>kind = OAuthError, code = JNum 400,
                     name = JStr ''invalid_request'', message = JStr ''bad''\<rparr>,
        populated = \<lparr>status = JUndefined, headers = [], body = JUndefined\<rparr>\<rparr>
       None
       \<lparr>locals = [(''user'', JStr ''u1'')], trace = []\<rparr>))
     = [(''user'', JStr ''u1'')]"
  using failure_leaves_locals_untouched [where fault = None and
      run = "\<lparr>settles = Rejected
                          \<lparr>kind = OAuthError, code = JNum 400,
                           name = JStr ''invalid_request'', message = JStr ''bad''\<rparr>,
              populated = \<lparr>status = JUndefined, headers = [], body = JUndefined\<rparr>\<rparr>"
      and e = "\<lparr>kind = OAuthError, code = JNum 400,
                name = JStr ''invalid_request'', message = JStr ''bad''\<rparr>"
      and this = "\<lparr>useErrorHandler = False, server = NodeOAuthServer [],
                   invalidTokenOnRevoke = JUndefined\<rparr>"
      and ?res0.0 = "\<lparr>locals = [(''user'', JStr ''u1'')], trace = []\<rparr>"]
  by simp

end
